theory Spec2Isabelle
  imports Main
begin

section \<open>The dropdown interaction engine (Dropdown.tsx)\<close>

text \<open>
  A shallow embedding of the state handling of the \<^verbatim>\<open>Dropdown\<close> component
  (src/unnamed/part_001).  Every handler of the component is a function from the
  component's props and the state it reads on entry to the list of effects it issues, in
  source order: state updates (\<^verbatim>\<open>setState\<close>, \<^verbatim>\<open>trySetState\<close>), notifications to the
  caller (\<^verbatim>\<open>_.invoke(this.props, ...)\<close>), focus moves, timers, calls into Downshift and
  a thrown \<^verbatim>\<open>TypeError\<close>.  \<open>run\<close> applies the state updates of such a list.  React
  queues the updates a handler issues, so a handler reads \<^verbatim>\<open>this.state\<close> as it was on
  entry.
\<close>

subsection \<open>Items, values, props and state\<close>

text \<open>
  An item (\<^verbatim>\<open>ShorthandValue\<close>) is a primitive string or a shorthand object, which has
  an identity and may have a \<^verbatim>\<open>header\<close>.  JavaScript treats the empty string as
  falsy and every object as truthy.
\<close>

datatype item = Primitive string | Record nat "string option"

fun truthy :: "item \<Rightarrow> bool" where
  "truthy (Primitive s) = (if s = [] then False else True)"
| "truthy (Record k h) = True"

text \<open>\<^verbatim>\<open>value: ShorthandValue | ShorthandCollection\<close>: null, one item, or an array.\<close>

datatype dvalue = VNull | VItem item | VArray "item list"

text \<open>\<^verbatim>\<open>search?: boolean | ((items, searchQuery) => ShorthandCollection)\<close>.\<close>

datatype search_prop =
  SearchOff | SearchOn | SearchFn "item list \<Rightarrow> string option \<Rightarrow> item list"

fun isSearch :: "search_prop \<Rightarrow> bool" where
  "isSearch SearchOff = False"
| "isSearch SearchOn = True"
| "isSearch (SearchFn f) = True"

record a11y_callbacks =
  onAdd :: "(item \<Rightarrow> string) option"
  onRemove :: "(item option \<Rightarrow> string) option"

text \<open>
  The props the handlers read.  The last five are the auto-controlled props: \<open>None\<close> is
  \<^verbatim>\<open>undefined\<close> (the field is managed by the component), \<open>Some v\<close> a value supplied
  by the caller.
\<close>

record props =
  items :: "item list option"
  itemToString :: "item \<Rightarrow> string"
  multiple :: bool
  search :: search_prop
  highlightFirstItemOnOpen :: bool
  moveFocusOnTab :: bool
  placeholder :: "string option"
  getA11ySelectionMessage :: "a11y_callbacks option"
  prop_activeSelectedIndex :: "int option option"
  prop_highlightedIndex :: "int option option"
  prop_open :: "bool option"
  prop_searchQuery :: "string option"
  prop_value :: "dvalue option"

text \<open>
  \<^verbatim>\<open>DropdownState\<close>.  \<open>None\<close> stands for \<^verbatim>\<open>undefined\<close> in \<open>filteredItems\<close>,
  \<open>filteredItemStrings\<close>, \<open>startingString\<close> and \<open>searchQuery\<close>, for \<^verbatim>\<open>null\<close> in
  \<open>highlightedIndex\<close>, and for either in \<open>activeSelectedIndex\<close> (the source never tells
  the two apart there: it tests \<^verbatim>\<open>_.isNil\<close>).
\<close>

record state =
  a11ySelectionStatus :: string
  activeSelectedIndex :: "int option"
  filteredItems :: "item list option"
  filteredItemStrings :: "string list option"
  focused :: bool
  startingString :: "string option"
  "open" :: bool
  searchQuery :: "string option"
  highlightedIndex :: "int option"
  value' :: dvalue
  itemIsFromKeyboard :: bool
  isFromKeyboard :: bool

fun defaultItemToString :: "item \<Rightarrow> string" where
  "defaultItemToString (Primitive s) = (if s = [] then [] else s)"
| "defaultItemToString (Record k h) =
     (case h of
        None \<Rightarrow> ''[object Object]''
      | Some t \<Rightarrow> (if t = [] then ''[object Object]'' else t))"

definition defaultProps :: props where
  "defaultProps =
     \<lparr>items = None, itemToString = defaultItemToString, multiple = False,
      search = SearchOff, highlightFirstItemOnOpen = False, moveFocusOnTab = False,
      placeholder = None, getA11ySelectionMessage = None,
      prop_activeSelectedIndex = None, prop_highlightedIndex = None, prop_open = None,
      prop_searchQuery = None, prop_value = None\<rparr>"

definition getInitialAutoControlledState :: "props \<Rightarrow> state" where
  "getInitialAutoControlledState p =
     \<lparr>a11ySelectionStatus = [],
      activeSelectedIndex = None,
      filteredItems = None,
      filteredItemStrings = None,
      focused = False,
      startingString = (if isSearch (search p) then None else Some []),
      open = False,
      searchQuery = (if isSearch (search p) then Some [] else None),
      highlightedIndex = (if highlightFirstItemOnOpen p then Some 0 else None),
      value' = (if multiple p then VArray [] else VNull),
      itemIsFromKeyboard = False,
      isFromKeyboard = False\<rparr>"

subsection \<open>Strings and arrays of the JavaScript library\<close>

text \<open>
  \<^verbatim>\<open>String.prototype.toLowerCase\<close>.  A character of the model is a code unit below
  256 (Basic Latin and Latin-1); the upper-case letters among them are A to Z (65 to 90)
  and the accented capitals 192 to 214 and 216 to 222, each 32 below its lower-case
  letter.  Strings with code units from 256 on are outside the model.
\<close>

definition toLowerChar :: "char \<Rightarrow> char" where
  "toLowerChar c =
     (let n = (of_char c :: nat)
      in if (65 \<le> n \<and> n \<le> 90) \<or> (192 \<le> n \<and> n \<le> 214) \<or> (216 \<le> n \<and> n \<le> 222)
         then char_of (n + 32) else c)"

definition toLowerCase :: "string \<Rightarrow> string" where
  "toLowerCase s = map toLowerChar s"

definition startsWith :: "string \<Rightarrow> string \<Rightarrow> bool" where
  "startsWith s t = (take (length t) s = t)"

text \<open>\<^verbatim>\<open>s.indexOf(t) !== -1\<close>: \<open>t\<close> occurs in \<open>s\<close>.\<close>

fun stringIncludes :: "string \<Rightarrow> string \<Rightarrow> bool" where
  "stringIncludes [] t = (t = [])"
| "stringIncludes (c # cs) t = (if startsWith (c # cs) t then True else stringIncludes cs t)"

text \<open>\<^verbatim>\<open>Array.prototype.indexOf\<close>: the first index of an element, or \<open>-1\<close>.\<close>

fun indexOf :: "'a list \<Rightarrow> 'a \<Rightarrow> int" where
  "indexOf [] x = - 1"
| "indexOf (y # ys) x =
     (if y = x then 0 else (let r = indexOf ys x in if r < 0 then - 1 else r + 1))"

text \<open>
  \<^verbatim>\<open>_.difference(items, value)\<close>: the items that are not among the values; a second
  argument that is not an array removes nothing.
\<close>

definition difference :: "item list \<Rightarrow> dvalue \<Rightarrow> item list" where
  "difference its v =
     (case v of VArray vs \<Rightarrow> filter (\<lambda>i. i \<notin> set vs) its | VNull \<Rightarrow> its | VItem x \<Rightarrow> its)"

text \<open>
  \<^verbatim>\<open>_.findIndex(array, predicate, fromIndex)\<close>: lodash's loop \<^verbatim>\<open>baseFindIndex\<close> from
  the start index, a negative start counting from the end, \<open>-1\<close> for a missing or empty
  array.
\<close>

function baseFindIndex :: "('a \<Rightarrow> bool) \<Rightarrow> 'a list \<Rightarrow> nat \<Rightarrow> int" where
  "baseFindIndex P xs i =
     (if i < length xs then (if P (xs ! i) then int i else baseFindIndex P xs (Suc i))
      else - 1)"
  by pat_completeness auto
termination
  by (relation "measure (\<lambda>(P, xs, i). length xs - i)") auto

declare baseFindIndex.simps [simp del]

definition findIndex :: "'a list option \<Rightarrow> ('a \<Rightarrow> bool) \<Rightarrow> int \<Rightarrow> int" where
  "findIndex array P fromIndex =
     (case array of
        None \<Rightarrow> - 1
      | Some xs \<Rightarrow>
          (if xs = [] then - 1
           else baseFindIndex P xs
                  (nat (if fromIndex < 0 then max (int (length xs) + fromIndex) 0
                        else fromIndex))))"

subsection \<open>State updates and effects\<close>

text \<open>One field of an object passed to \<^verbatim>\<open>setState\<close> or \<^verbatim>\<open>trySetState\<close>.\<close>

datatype assign =
    SetActiveSelectedIndex "int option"
  | SetHighlightedIndex "int option"
  | SetOpen bool
  | SetSearchQuery "string option"
  | SetValue dvalue
  | SetA11ySelectionStatus string
  | SetStartingString string
  | SetItemIsFromKeyboard bool

fun assignField :: "assign \<Rightarrow> state \<Rightarrow> state" where
  "assignField (SetActiveSelectedIndex v) s = s\<lparr>activeSelectedIndex := v\<rparr>"
| "assignField (SetHighlightedIndex v) s = s\<lparr>highlightedIndex := v\<rparr>"
| "assignField (SetOpen v) s = s\<lparr>open := v\<rparr>"
| "assignField (SetSearchQuery v) s = s\<lparr>searchQuery := v\<rparr>"
| "assignField (SetValue v) s = s\<lparr>value' := v\<rparr>"
| "assignField (SetA11ySelectionStatus v) s = s\<lparr>a11ySelectionStatus := v\<rparr>"
| "assignField (SetStartingString v) s = s\<lparr>startingString := Some v\<rparr>"
| "assignField (SetItemIsFromKeyboard v) s = s\<lparr>itemIsFromKeyboard := v\<rparr>"

fun setState :: "assign list \<Rightarrow> state \<Rightarrow> state" where
  "setState [] s = s"
| "setState (a # as) s = setState as (assignField a s)"

text \<open>Whether the caller supplies the field as a prop (\<^verbatim>\<open>this.props[key] !== undefined\<close>).\<close>

fun controlled :: "props \<Rightarrow> assign \<Rightarrow> bool" where
  "controlled p (SetActiveSelectedIndex v) = (case prop_activeSelectedIndex p of None \<Rightarrow> False | Some x \<Rightarrow> True)"
| "controlled p (SetHighlightedIndex v) = (case prop_highlightedIndex p of None \<Rightarrow> False | Some x \<Rightarrow> True)"
| "controlled p (SetOpen v) = (case prop_open p of None \<Rightarrow> False | Some x \<Rightarrow> True)"
| "controlled p (SetSearchQuery v) = (case prop_searchQuery p of None \<Rightarrow> False | Some x \<Rightarrow> True)"
| "controlled p (SetValue v) = (case prop_value p of None \<Rightarrow> False | Some x \<Rightarrow> True)"
| "controlled p (SetA11ySelectionStatus v) = False"
| "controlled p (SetStartingString v) = False"
| "controlled p (SetItemIsFromKeyboard v) = False"

text \<open>
  Modelled from the spec: \<^verbatim>\<open>trySetState\<close> of \<^verbatim>\<open>AutoControlledComponent\<close> (lib, not
  under src/), the controlled/uncontrolled facility: "the engine calls try to change
  state X and trusts the facility to apply or ignore it per caller configuration".  A
  field the caller controls keeps its value; every other field of the update is applied.
\<close>

definition trySetState :: "props \<Rightarrow> assign list \<Rightarrow> state \<Rightarrow> state" where
  "trySetState p patch s = setState (filter (\<lambda>a. \<not> controlled p a) patch) s"

datatype handler_name = OnOpenChange | OnSearchQueryChange | OnSelectedChange

datatype element = ListEl | ButtonEl | InputEl

datatype timer = A11yStatusTimeout | CharKeysPressedTimeout

datatype downshift_call = ToggleMenu | SelectItemAtIndex int | InputKeyDown nat

datatype error = TypeError

datatype effect =
    TrySetState "assign list"
  | SetState "assign list"
  | ValuePop
  | Invoke handler_name "assign list"
  | Focus element
  | ClearTimeout timer
  | SetTimeout timer
  | ScrollSelectedItemsLater
  | Downshift downshift_call
  | PreventDefault
  | StopPropagation
  | Throw error

text \<open>
  The state after the effects of a handler: the updates in the order they were issued.
  \<open>ValuePop\<close> is \<^verbatim>\<open>value.pop()\<close> on the array held in the state; nothing after a
  \<open>Throw\<close> happens.
\<close>

fun run :: "props \<Rightarrow> state \<Rightarrow> effect list \<Rightarrow> state" where
  "run p s [] = s"
| "run p s (TrySetState patch # es) = run p (trySetState p patch s) es"
| "run p s (SetState patch # es) = run p (setState patch s) es"
| "run p s (ValuePop # es) =
     run p (s\<lparr>value' := (case value' s of VArray vs \<Rightarrow> VArray (butlast vs) | VNull \<Rightarrow> VNull | VItem x \<Rightarrow> VItem x)\<rparr>) es"
| "run p s (Throw e # es) = s"
| "run p s (Invoke h patch # es) = run p s es"
| "run p s (Focus el # es) = run p s es"
| "run p s (ClearTimeout t # es) = run p s es"
| "run p s (SetTimeout t # es) = run p s es"
| "run p s (ScrollSelectedItemsLater # es) = run p s es"
| "run p s (Downshift d # es) = run p s es"
| "run p s (PreventDefault # es) = run p s es"
| "run p s (StopPropagation # es) = run p s es"

fun isThrow :: "effect \<Rightarrow> bool" where
  "isThrow (Throw e) = True"
| "isThrow other = False"

text \<open>Sequencing two statement blocks: the second runs unless the first threw.\<close>

definition andThen :: "effect list \<Rightarrow> effect list \<Rightarrow> effect list" where
  "andThen a b = (if list_ex isThrow a then a else a @ b)"

fun isStateUpdate :: "effect \<Rightarrow> bool" where
  "isStateUpdate (TrySetState patch) = True"
| "isStateUpdate (SetState patch) = True"
| "isStateUpdate ValuePop = True"
| "isStateUpdate other = False"

fun isInvoke :: "handler_name \<Rightarrow> effect \<Rightarrow> bool" where
  "isInvoke h (Invoke h' patch) = (h = h')"
| "isInvoke h other = False"

subsection \<open>The item filter\<close>

text \<open>
  \<^verbatim>\<open>getAutoControlledStateFromProps\<close>: the state with the filtered items (and, without
  search, their lower-cased strings) recomputed from the items, the value and the search
  query.  A \<^verbatim>\<open>null\<close> result leaves the state as it is.  With \<^verbatim>\<open>search\<close> set to
  \<^verbatim>\<open>true\<close> the filter callback calls \<^verbatim>\<open>searchQuery.toLowerCase()\<close> for each
  candidate, which throws when the query is \<^verbatim>\<open>undefined\<close>.
\<close>

definition getAutoControlledStateFromProps :: "props \<Rightarrow> state \<Rightarrow> error + state" where
  "getAutoControlledStateFromProps p s =
     (case items p of
        None \<Rightarrow> Inr s
      | Some its \<Rightarrow>
          (let filteredItemsByValue = (if multiple p then difference its (value' s) else its) in
           case search p of
             SearchFn f \<Rightarrow>
               Inr (s\<lparr>filteredItems := Some (f filteredItemsByValue (searchQuery s))\<rparr>)
           | SearchOn \<Rightarrow>
               (case searchQuery s of
                  None \<Rightarrow>
                    (if filteredItemsByValue = [] then Inr (s\<lparr>filteredItems := Some []\<rparr>)
                     else Inl TypeError)
                | Some q \<Rightarrow>
                    Inr (s\<lparr>filteredItems :=
                          Some (filter
                                  (\<lambda>item. stringIncludes (toLowerCase (itemToString p item))
                                             (toLowerCase q))
                                  filteredItemsByValue)\<rparr>))
           | SearchOff \<Rightarrow>
               Inr (s\<lparr>filteredItems := Some filteredItemsByValue,
                      filteredItemStrings :=
                        Some (map (\<lambda>filteredItem. toLowerCase (itemToString p filteredItem))
                                filteredItemsByValue)\<rparr>)))"

subsection \<open>Small helpers of the component\<close>

definition trySetStateAndInvokeHandler :: "handler_name \<Rightarrow> assign list \<Rightarrow> effect list" where
  "trySetStateAndInvokeHandler handlerName newState =
     [TrySetState newState, Invoke handlerName newState]"

definition tryFocusTriggerButton :: "props \<Rightarrow> effect list" where
  "tryFocusTriggerButton p = (if isSearch (search p) then [] else [Focus ButtonEl])"

definition tryFocusSearchInput :: "props \<Rightarrow> effect list" where
  "tryFocusSearchInput p = (if isSearch (search p) then [Focus InputEl] else [])"

definition setA11ySelectionMessage :: "string \<Rightarrow> effect list" where
  "setA11ySelectionMessage status =
     [ClearTimeout A11yStatusTimeout, SetState [SetA11ySelectionStatus status],
      SetTimeout A11yStatusTimeout]"

definition setStartingString :: "string \<Rightarrow> effect list" where
  "setStartingString str =
     [ClearTimeout CharKeysPressedTimeout, SetState [SetStartingString str],
      SetTimeout CharKeysPressedTimeout]"

fun isValueEmpty :: "dvalue \<Rightarrow> bool" where
  "isValueEmpty (VArray vs) = (length vs < 1)"
| "isValueEmpty VNull = True"
| "isValueEmpty (VItem x) = (\<not> truthy x)"

text \<open>
  \<^verbatim>\<open>getSelectedItemAsString(value: ShorthandValue)\<close>, at an item: the placeholder
  (which may be \<^verbatim>\<open>undefined\<close>) for an empty one, then the empty string in a multiple
  selection, else the item's string.
\<close>

definition getSelectedItemAsString :: "props \<Rightarrow> item \<Rightarrow> string option" where
  "getSelectedItemAsString p x =
     (if isValueEmpty (VItem x) then placeholder p
      else if multiple p then Some []
      else Some (itemToString p x))"

text \<open>
  The handlers of a multiple selection use the value as an array (the type assertion
  \<^verbatim>\<open>value as ShorthandCollection\<close>).  What JavaScript does with a value that is not
  an array depends on the operation.  \<open>asCollection\<close> is the receiver of
  \<^verbatim>\<open>value.filter(...)\<close> and \<^verbatim>\<open>value.pop()\<close>: only an array has these methods, the
  call throws on anything else.  \<open>spreadValue\<close> is \<^verbatim>\<open>[...value]\<close>: a string spreads
  into its characters, \<^verbatim>\<open>null\<close> and objects are not iterable.  \<open>hasElements\<close> is
  \<^verbatim>\<open>value.length > 0\<close>: a string has a length, an object has none
  (\<^verbatim>\<open>undefined > 0\<close> is false), reading it from \<^verbatim>\<open>null\<close> throws.
\<close>

fun asCollection :: "dvalue \<Rightarrow> error + item list" where
  "asCollection (VArray vs) = Inr vs"
| "asCollection VNull = Inl TypeError"
| "asCollection (VItem x) = Inl TypeError"

fun spreadValue :: "dvalue \<Rightarrow> error + item list" where
  "spreadValue (VArray vs) = Inr vs"
| "spreadValue VNull = Inl TypeError"
| "spreadValue (VItem (Primitive str)) = Inr (map (\<lambda>c. Primitive [c]) str)"
| "spreadValue (VItem (Record k h)) = Inl TypeError"

fun hasElements :: "dvalue \<Rightarrow> error + bool" where
  "hasElements (VArray vs) = Inr (length vs > 0)"
| "hasElements VNull = Inl TypeError"
| "hasElements (VItem (Primitive str)) = Inr (length str > 0)"
| "hasElements (VItem (Record k h)) = Inr False"

subsection \<open>Opening and closing: the highlight navigator\<close>

datatype change_type =
  KeyDownArrowUp | KeyDownArrowDown | ItemMouseEnter | BlurButton | OtherChange

text \<open>
  The fields of Downshift's \<^verbatim>\<open>StateChangeOptions\<close> the component reads:
  \<open>ch_highlightedIndex\<close> is \<open>Some i\<close> when \<^verbatim>\<open>changes.highlightedIndex\<close> is a number.
\<close>

record changes =
  ch_type :: change_type
  ch_isOpen :: "bool option"
  ch_highlightedIndex :: "int option"

text \<open>The test \<^verbatim>\<open>if (highlightedIndex)\<close>: \<^verbatim>\<open>null\<close> and \<open>0\<close> are falsy.\<close>

fun truthyIndex :: "int option \<Rightarrow> bool" where
  "truthyIndex None = False"
| "truthyIndex (Some i) = (if i = 0 then False else True)"

fun truthyValue :: "dvalue \<Rightarrow> bool" where
  "truthyValue VNull = False"
| "truthyValue (VItem x) = truthy x"
| "truthyValue (VArray vs) = True"

text \<open>\<^verbatim>\<open>items.indexOf(value)\<close>: an array is never one of the items.\<close>

fun indexOfValue :: "item list \<Rightarrow> dvalue \<Rightarrow> int" where
  "indexOfValue its (VItem x) = indexOf its x"
| "indexOfValue its VNull = - 1"
| "indexOfValue its (VArray vs) = - 1"

definition getHighlightedIndexOnArrowKeyOpen :: "props \<Rightarrow> state \<Rightarrow> changes \<Rightarrow> error + int option" where
  "getHighlightedIndexOnArrowKeyOpen p s c =
     (case filteredItems s of
        None \<Rightarrow> Inl TypeError
      | Some fs \<Rightarrow>
          (let isArrowUp = (ch_type c = KeyDownArrowUp);
               isArrowDown = (ch_type c = KeyDownArrowDown);
               itemsLength = int (length fs)
           in
             if truthyIndex (highlightedIndex s) then Inr (highlightedIndex s)
             else if highlightFirstItemOnOpen p then Inr (Some 0)
             else if \<not> multiple p \<and> \<not> isSearch (search p) \<and> truthyValue (value' s) then
               (case items p of
                  None \<Rightarrow> Inl TypeError
                | Some its \<Rightarrow>
                    (let offset = (if isArrowUp then - 1 else if isArrowDown then 1 else 0);
                         newHighlightedIndex = indexOfValue its (value' s) + offset
                     in
                       if newHighlightedIndex \<ge> itemsLength then Inr (Some 0)
                       else if newHighlightedIndex < 0 then Inr (Some (itemsLength - 1))
                       else Inr (Some newHighlightedIndex)))
             else if isArrowDown then Inr (Some 0)
             else if isArrowUp then Inr (Some (itemsLength - 1))
             else Inr None))"

text \<open>
  \<^verbatim>\<open>handleStateChange\<close>.  On opening, the highlighted index becomes the navigator's
  result when that is a number and stays as it was otherwise; on closing it becomes
  \<^verbatim>\<open>null\<close>.  The second block reads \<^verbatim>\<open>this.state.open\<close> as it was on entry.
\<close>

definition handleStateChange :: "props \<Rightarrow> state \<Rightarrow> changes \<Rightarrow> effect list" where
  "handleStateChange p s c =
     andThen
       (case ch_isOpen c of
          None \<Rightarrow> []
        | Some isOpen \<Rightarrow>
            (if isOpen = open s then []
             else if isOpen then
               (case getHighlightedIndexOnArrowKeyOpen p s c of
                  Inl e \<Rightarrow> [Throw e]
                | Inr highlightedIndexOnArrowKeyOpen \<Rightarrow>
                    (if isSearch (search p) then [] else [Focus ListEl]) @
                    trySetStateAndInvokeHandler OnOpenChange
                      [SetOpen True,
                       SetHighlightedIndex
                         (case highlightedIndexOnArrowKeyOpen of
                            Some i \<Rightarrow> Some i
                          | None \<Rightarrow> highlightedIndex s)])
             else
               trySetStateAndInvokeHandler OnOpenChange
                 [SetOpen False, SetHighlightedIndex None]))
       (case ch_highlightedIndex c of
          None \<Rightarrow> []
        | Some i \<Rightarrow>
            (if open s then
               [TrySetState [SetHighlightedIndex (Some i)],
                SetState [SetItemIsFromKeyboard (if ch_type c = ItemMouseEnter then False else True)]]
             else []))"

subsection \<open>Selecting, removing and clearing\<close>

text \<open>
  \<^verbatim>\<open>handleSelectedChange\<close>, Downshift's \<^verbatim>\<open>onChange\<close>.  It never writes \<open>open\<close>.
\<close>

definition handleSelectedChange :: "props \<Rightarrow> state \<Rightarrow> item \<Rightarrow> effect list" where
  "handleSelectedChange p s x =
     andThen
       (if multiple p then
          (case spreadValue (value' s) of
             Inl e \<Rightarrow> [Throw e]
           | Inr vs \<Rightarrow>
               trySetStateAndInvokeHandler OnSelectedChange
                 [SetValue (VArray (vs @ [x])), SetSearchQuery (getSelectedItemAsString p x)])
        else
          trySetStateAndInvokeHandler OnSelectedChange
            [SetValue (VItem x), SetSearchQuery (getSelectedItemAsString p x)])
       (andThen
          (if multiple p then []
           else (case items p of
                   None \<Rightarrow> [Throw TypeError]
                 | Some its \<Rightarrow> [SetState [SetHighlightedIndex (Some (indexOf its x))]]))
          ((case getA11ySelectionMessage p of
              None \<Rightarrow> []
            | Some m \<Rightarrow>
                (case onAdd m of
                   None \<Rightarrow> []
                 | Some f \<Rightarrow> setA11ySelectionMessage (f x))) @
           (if multiple p then [ScrollSelectedItemsLater] else []) @
           tryFocusTriggerButton p))"

text \<open>
  \<^verbatim>\<open>removeItemFromValue(item?)\<close>: with a truthy item, the value without every
  occurrence of it; otherwise \<^verbatim>\<open>value.pop()\<close>, which removes the last element of the
  array held in the state and hands \<^verbatim>\<open>undefined\<close> to the announcement when the array
  is empty.
\<close>

definition removeItemFromValue :: "props \<Rightarrow> state \<Rightarrow> item option \<Rightarrow> effect list" where
  "removeItemFromValue p s x =
     (case asCollection (value' s) of
        Inl e \<Rightarrow> [Throw e]
      | Inr vs \<Rightarrow>
          (let byItem = (case x of None \<Rightarrow> False | Some i \<Rightarrow> truthy i);
               newValue = (if byItem then filter (\<lambda>currentElement. \<not> (Some currentElement = x)) vs
                           else butlast vs);
               poppedItem = (if byItem then x else if vs = [] then None else Some (last vs))
           in
             (if byItem then [] else [ValuePop]) @
             (case getA11ySelectionMessage p of
                None \<Rightarrow> []
              | Some m \<Rightarrow>
                  (case onRemove m of
                     None \<Rightarrow> []
                   | Some f \<Rightarrow> setA11ySelectionMessage (f poppedItem))) @
             trySetStateAndInvokeHandler OnSelectedChange [SetValue (VArray newValue)]))"

text \<open>
  \<^verbatim>\<open>tryRemoveItemFromValue\<close>, the Backspace key of the search input.  \<open>inputRef\<close> is
  \<^verbatim>\<open>this.inputRef.current\<close>: \<open>None\<close> when no input is mounted, else the input's
  \<^verbatim>\<open>selectionStart\<close>.  The conjuncts are evaluated left to right.
\<close>

definition tryRemoveItemFromValue :: "props \<Rightarrow> state \<Rightarrow> nat option \<Rightarrow> effect list" where
  "tryRemoveItemFromValue p s inputRef =
     (if \<not> multiple p then []
      else
        (case (if searchQuery s = Some [] then Inr True
               else (case inputRef of None \<Rightarrow> Inl TypeError | Some selectionStart \<Rightarrow> Inr (selectionStart = 0))) of
           Inl e \<Rightarrow> [Throw e]
         | Inr atStart \<Rightarrow>
             (if atStart then
                (case hasElements (value' s) of
                   Inl e \<Rightarrow> [Throw e]
                 | Inr nonEmpty \<Rightarrow> (if nonEmpty then removeItemFromValue p s None else []))
              else [])))"

definition handleClear :: "props \<Rightarrow> state \<Rightarrow> effect list" where
  "handleClear p s =
     (let initial = getInitialAutoControlledState p;
          newState =
            [SetActiveSelectedIndex (activeSelectedIndex initial),
             SetHighlightedIndex (highlightedIndex initial),
             SetOpen (open initial),
             SetSearchQuery (searchQuery initial),
             SetValue (value' initial)]
      in
        [Invoke OnSelectedChange newState, TrySetState newState] @
        tryFocusSearchInput p @ tryFocusTriggerButton p)"

subsection \<open>Keys on the list: Tab, Escape and type-ahead\<close>

text \<open>
  \<^verbatim>\<open>setHighlightedIndexOnCharKeyDown\<close>.  The template string renders an
  \<^verbatim>\<open>undefined\<close> starting string as the text "undefined"; reading its \<^verbatim>\<open>length\<close>
  throws.
\<close>

definition setHighlightedIndexOnCharKeyDown :: "state \<Rightarrow> string \<Rightarrow> effect list" where
  "setHighlightedIndexOnCharKeyDown s keyString =
     (let newStartingString =
            (case startingString s of None \<Rightarrow> ''undefined'' | Some t \<Rightarrow> t) @ toLowerCase keyString;
          startsWithIt = (\<lambda>item. startsWith item newStartingString);
          finish =
            (\<lambda>found.
               (let newHighlightedIndex =
                      (if found < 0 then findIndex (filteredItemStrings s) startsWithIt 0 else found)
                in if newHighlightedIndex \<ge> 0
                   then [SetState [SetHighlightedIndex (Some newHighlightedIndex)]]
                   else []))
      in
        setStartingString newStartingString @
        (case highlightedIndex s of
           None \<Rightarrow> finish (- 1)
         | Some h \<Rightarrow>
             (case startingString s of
                None \<Rightarrow> [Throw TypeError]
              | Some t \<Rightarrow>
                  finish (findIndex (filteredItemStrings s) startsWithIt
                            (h + (if length t > 0 then 0 else 1))))))"

text \<open>
  \<^verbatim>\<open>handleTabSelection\<close>; \<open>hi\<close> is the highlighted index Downshift passes to the
  render function.
\<close>

definition handleTabSelection :: "props \<Rightarrow> state \<Rightarrow> int option \<Rightarrow> effect list" where
  "handleTabSelection p s hi =
     (if open s then
        (case hi of
           None \<Rightarrow> [Downshift ToggleMenu]
         | Some i \<Rightarrow>
             (case filteredItems s of
                None \<Rightarrow> [Throw TypeError]
              | Some fs \<Rightarrow>
                  (if fs = [] then [Downshift ToggleMenu]
                   else [Downshift (SelectItemAtIndex i)] @
                        (if \<not> moveFocusOnTab p \<and> multiple p then [PreventDefault] else []))))
      else [])"

text \<open>The code units of the characters that match \<^verbatim>\<open>/[a-zA-Z0-9]/\<close>.\<close>

definition isAlphaNumeric :: "nat \<Rightarrow> bool" where
  "isAlphaNumeric keyCode =
     ((48 \<le> keyCode \<and> keyCode \<le> 57) \<or> (65 \<le> keyCode \<and> keyCode \<le> 90) \<or>
      (97 \<le> keyCode \<and> keyCode \<le> 122))"

text \<open>
  \<^verbatim>\<open>handleListKeyDown\<close>, the key handler of the list of a dropdown without search
  (Tab is key code 9, Escape 27).  \<^verbatim>\<open>String.fromCharCode(keyCode)\<close> is the character
  with the code unit \<open>keyCode mod 65536\<close>.
\<close>

definition handleListKeyDown :: "props \<Rightarrow> state \<Rightarrow> nat \<Rightarrow> int option \<Rightarrow> effect list" where
  "handleListKeyDown p s keyCode hi =
     (if keyCode = 9 then handleTabSelection p s hi
      else if keyCode = 27 then
        [Downshift (InputKeyDown keyCode)] @ tryFocusTriggerButton p @ [StopPropagation]
      else
        andThen
          (if isAlphaNumeric (keyCode mod 65536)
           then setHighlightedIndexOnCharKeyDown s [char_of (keyCode mod 65536)]
           else [])
          [Downshift (InputKeyDown keyCode)])"

subsection \<open>The search query, removing a selected item, and a selection\<close>

text \<open>
  \<^verbatim>\<open>handleSearchQueryChange\<close>, Downshift's \<^verbatim>\<open>onInputValueChange\<close>: the new query,
  the default highlighted index, and a closed panel when the query becomes empty.
\<close>

definition handleSearchQueryChange :: "props \<Rightarrow> state \<Rightarrow> string \<Rightarrow> effect list" where
  "handleSearchQueryChange p s query =
     trySetStateAndInvokeHandler OnSearchQueryChange
       [SetSearchQuery (Some query),
        SetHighlightedIndex (if highlightFirstItemOnOpen p then Some 0 else None),
        SetOpen (if query = [] then False else open s)]"

text \<open>
  \<^verbatim>\<open>handleSelectedItemRemove\<close>, the remove action of a selected item (and the Delete
  and Backspace keys on it).
\<close>

definition handleSelectedItemRemove :: "props \<Rightarrow> state \<Rightarrow> item \<Rightarrow> effect list" where
  "handleSelectedItemRemove p s x =
     andThen
       ([TrySetState [SetActiveSelectedIndex None]] @ removeItemFromValue p s (Some x))
       (tryFocusSearchInput p @ tryFocusTriggerButton p)"

text \<open>
  A selection reaches the component through Downshift, which is given
  \<^verbatim>\<open>onStateChange={this.handleStateChange}\<close> and
  \<^verbatim>\<open>onChange={this.handleSelectedChange}\<close>.  Downshift's \<^verbatim>\<open>selectItem\<close> sets
  \<^verbatim>\<open>isOpen\<close> to false together with the selected item and reports the change to
  \<^verbatim>\<open>onStateChange\<close> first and to \<^verbatim>\<open>onChange\<close> after it, in one batch: both
  handlers read the state as it was before the selection, and the updates of the first
  are applied before those of the second.
\<close>

definition selectionChange :: changes where
  "selectionChange = \<lparr>ch_type = OtherChange, ch_isOpen = Some False, ch_highlightedIndex = None\<rparr>"

definition selectItem :: "props \<Rightarrow> state \<Rightarrow> item \<Rightarrow> effect list" where
  "selectItem p s x = andThen (handleStateChange p s selectionChange) (handleSelectedChange p s x)"

subsection \<open>Derived views and the scenarios of the specification\<close>

text \<open>
  FilteredItems as the specification names it: the filtered items of the state the
  filter computes (\<open>None\<close> when the filter throws or nothing was ever computed).
\<close>

definition FilteredItems :: "props \<Rightarrow> state \<Rightarrow> item list option" where
  "FilteredItems p s =
     (case getAutoControlledStateFromProps p s of Inl e \<Rightarrow> None | Inr s' \<Rightarrow> filteredItems s')"

text \<open>The item collections of the specification's scenarios A and B.\<close>

definition fruits :: "item list" where
  "fruits = [Primitive ''Apple'', Primitive ''Banana'', Primitive ''Cherry'']"

definition xyz :: "item list" where
  "xyz = [Primitive ''X'', Primitive ''Y'', Primitive ''Z'']"

text \<open>
  A dropdown with default props over the given items, and its initial (closed) state
  holding the given value and the given filtered items.
\<close>

definition dropdownOver :: "item list \<Rightarrow> props" where
  "dropdownOver its = defaultProps\<lparr>items := Some its\<rparr>"

definition closedWith :: "props \<Rightarrow> dvalue \<Rightarrow> item list \<Rightarrow> state" where
  "closedWith p v fs = (getInitialAutoControlledState p)\<lparr>value' := v, filteredItems := Some fs\<rparr>"

text \<open>Downshift's change that opens the menu, by its type.\<close>

definition openBy :: "change_type \<Rightarrow> changes" where
  "openBy t = \<lparr>ch_type = t, ch_isOpen = Some True, ch_highlightedIndex = None\<rparr>"

text \<open>Scenarios B, C and E: multiple selection over X, Y, Z, and a search over the fruits.\<close>

definition multiXyz :: props where
  "multiXyz = (dropdownOver xyz)\<lparr>multiple := True\<rparr>"

definition multiSearchXyz :: props where
  "multiSearchXyz = (dropdownOver xyz)\<lparr>multiple := True, search := SearchOn\<rparr>"

definition searchFruits :: props where
  "searchFruits = (dropdownOver fruits)\<lparr>search := SearchOn\<rparr>"





definition pickOrBlank :: props where
  "pickOrBlank = (dropdownOver [Primitive [], Primitive ''a''])\<lparr>placeholder := Some ''Pick''\<rparr>"

subsection \<open>Events and the states a mounted dropdown reaches\<close>

text \<open>
  The events that reach the handlers above: a state change reported by Downshift, a
  selection, a key on the list, a new search query, Backspace in the search input (with
  \<^verbatim>\<open>this.inputRef.current\<close>), the removal of a selected item, the clear indicator,
  and the expiry of one of the two timers, which empties the announcement or the
  type-ahead buffer.  The list's key handler is attached only without search
  (\<^verbatim>\<open>if (!search)\<close>), the search input is rendered only with search, the selected
  items only in a multiple selection.  The handlers left out (focus and blur, the keys
  that move the active selected item) write only \<open>focused\<close>, \<open>isFromKeyboard\<close> and
  \<open>activeSelectedIndex\<close>, which no handler here reads.  A call into Downshift (toggle
  the menu, select the item at an index) comes back as a state change or a selection of
  its own.  The props stay as they are.
\<close>

datatype event =
    Changed changes
  | Selected item
  | ListKey nat "int option"
  | QueryChanged string
  | Backspace "nat option"
  | Removed item
  | Cleared
  | Expired timer

fun dispatch :: "props \<Rightarrow> state \<Rightarrow> event \<Rightarrow> effect list" where
  "dispatch p s (Changed c) = handleStateChange p s c"
| "dispatch p s (Selected x) = selectItem p s x"
| "dispatch p s (ListKey keyCode hi) =
     (if isSearch (search p) then [] else handleListKeyDown p s keyCode hi)"
| "dispatch p s (QueryChanged query) = handleSearchQueryChange p s query"
| "dispatch p s (Backspace inputRef) =
     (if isSearch (search p) then tryRemoveItemFromValue p s inputRef else [])"
| "dispatch p s (Removed x) = (if multiple p then handleSelectedItemRemove p s x else [])"
| "dispatch p s Cleared = handleClear p s"
| "dispatch p s (Expired A11yStatusTimeout) = [SetState [SetA11ySelectionStatus []]]"
| "dispatch p s (Expired CharKeysPressedTimeout) = [SetState [SetStartingString []]]"

text \<open>
  Modelled from the spec: "all derived fields (FilteredItems, computed highlight
  defaults) are recomputed synchronously whenever their inputs change".
  \<^verbatim>\<open>AutoControlledComponent\<close> (lib, not under src/) calls
  \<^verbatim>\<open>getAutoControlledStateFromProps\<close> when the component mounts and after every
  update.  \<open>step\<close> is one event: the updates of its handler, then the filter; \<open>trace\<close>
  is the state after a sequence of events from mount, or the error the filter throws.
\<close>

definition step :: "props \<Rightarrow> state \<Rightarrow> event \<Rightarrow> error + state" where
  "step p s ev = getAutoControlledStateFromProps p (run p s (dispatch p s ev))"

fun steps :: "props \<Rightarrow> state \<Rightarrow> event list \<Rightarrow> error + state" where
  "steps p s [] = Inr s"
| "steps p s (ev # evs) =
     (case step p s ev of Inl e \<Rightarrow> Inl e | Inr s' \<Rightarrow> steps p s' evs)"

definition mount :: "props \<Rightarrow> error + state" where
  "mount p = getAutoControlledStateFromProps p (getInitialAutoControlledState p)"

definition trace :: "props \<Rightarrow> event list \<Rightarrow> error + state" where
  "trace p evs = (case mount p of Inl e \<Rightarrow> Inl e | Inr s0 \<Rightarrow> steps p s0 evs)"

text \<open>
  What is to be seen of a state: open or closed, the highlighted index, the value, the
  search query and the filtered items.
\<close>

definition view ::
  "error + state \<Rightarrow> (bool \<times> int option \<times> dvalue \<times> string option \<times> item list option) option" where
  "view r =
     (case r of
        Inl e \<Rightarrow> None
      | Inr s \<Rightarrow> Some (open s, highlightedIndex s, value' s, searchQuery s, filteredItems s))"







subsection \<open>Type-ahead: the scan in declarative terms\<close>

text \<open>
  \<open>firstMatchFrom strs buffer start j\<close>: index \<open>j\<close> is the first one at or after
  \<open>start\<close> whose string starts with the buffer; \<open>noMatchFrom\<close>: there is none.
\<close>

definition firstMatchFrom :: "string list \<Rightarrow> string \<Rightarrow> nat \<Rightarrow> nat \<Rightarrow> bool" where
  "firstMatchFrom strs buffer start j =
     (start \<le> j \<and> j < length strs \<and> startsWith (strs ! j) buffer \<and>
      list_all (\<lambda>i. \<not> startsWith (strs ! i) buffer) [start..<j])"

definition noMatchFrom :: "string list \<Rightarrow> string \<Rightarrow> nat \<Rightarrow> bool" where
  "noMatchFrom strs buffer start =
     list_all (\<lambda>i. \<not> startsWith (strs ! i) buffer) [start..<length strs]"

text \<open>
  The scan as the specification words it: "beginning the scan just after the currently
  highlighted index (or from index 0 if no index is highlighted or the buffer was just
  started), wrapping to a scan from index 0 if nothing matches forward; if no candidate
  matches at all, HighlightedIndex is left unchanged".  It is compared with
  \<open>setHighlightedIndexOnCharKeyDown\<close>, the source's scan.
\<close>

definition typeAheadAsStated :: "string list \<Rightarrow> string \<Rightarrow> int option \<Rightarrow> string \<Rightarrow> int option" where
  "typeAheadAsStated strs buffer highlighted key =
     (let newBuffer = buffer @ toLowerCase key;
          start = (case highlighted of
                     None \<Rightarrow> 0
                   | Some h \<Rightarrow> (if buffer = [] then 0 else nat (h + 1)));
          hit = (\<lambda>from. find (\<lambda>j. startsWith (strs ! j) newBuffer) [from..<length strs])
      in case hit start of
           Some j \<Rightarrow> Some (int j)
         | None \<Rightarrow> (case hit 0 of Some j \<Rightarrow> Some (int j) | None \<Rightarrow> highlighted))"

text \<open>
  An open dropdown without search whose list shows the given strings, with the given
  highlighted index and type-ahead buffer.
\<close>

definition typing :: "string list \<Rightarrow> int option \<Rightarrow> string \<Rightarrow> state" where
  "typing strs highlighted buffer =
     (getInitialAutoControlledState defaultProps)
       \<lparr>open := True, filteredItemStrings := Some strs, highlightedIndex := highlighted,
        startingString := Some buffer\<rparr>"

section \<open>Properties\<close>

subsection \<open>Helper facts\<close>

lemma set_difference_VArray: "set (difference its (VArray vs)) = set its - set vs"
  by (auto simp: difference_def)

lemmas scenario_defs =
  dropdownOver_def closedWith_def openBy_def defaultProps_def
  getInitialAutoControlledState_def fruits_def xyz_def

lemmas handler_defs =
  andThen_def trySetStateAndInvokeHandler_def trySetState_def tryFocusTriggerButton_def
  tryFocusSearchInput_def setA11ySelectionMessage_def setStartingString_def


lemma baseFindIndex_first:
  "i \<le> j \<Longrightarrow> j < length xs \<Longrightarrow> P (xs ! j) \<Longrightarrow> (\<forall>k. i \<le> k \<and> k < j \<longrightarrow> \<not> P (xs ! k)) \<Longrightarrow>
   baseFindIndex P xs i = int j"
proof (induction P xs i rule: baseFindIndex.induct)
  case (1 P xs i)
  show ?case
  proof (cases "i = j")
    case True
    with "1.prems" show ?thesis by (subst baseFindIndex.simps) simp
  next
    case False
    with "1.prems" have lt: "i < j" and np: "\<not> P (xs ! i)" by auto
    with "1.prems" have "baseFindIndex P xs (Suc i) = int j"
      by (intro "1.IH") auto
    with lt np "1.prems" show ?thesis by (subst baseFindIndex.simps) simp
  qed
qed

lemma baseFindIndex_none:
  "(\<forall>k. i \<le> k \<and> k < length xs \<longrightarrow> \<not> P (xs ! k)) \<Longrightarrow> baseFindIndex P xs i = - 1"
proof (induction P xs i rule: baseFindIndex.induct)
  case (1 P xs i)
  show ?case
  proof (cases "i < length xs")
    case True
    with "1.prems" have np: "\<not> P (xs ! i)" by auto
    with True "1.prems" have "baseFindIndex P xs (Suc i) = - 1"
      by (intro "1.IH") auto
    with True np show ?thesis by (subst baseFindIndex.simps) simp
  next
    case False
    then show ?thesis by (subst baseFindIndex.simps) simp
  qed
qed

lemma findIndex_firstMatch:
  assumes "firstMatchFrom strs b start j"
  shows "findIndex (Some strs) (\<lambda>item. startsWith item b) (int start) = int j"
proof -
  from assms have ne: "strs \<noteq> []" by (auto simp: firstMatchFrom_def)
  from assms have "baseFindIndex (\<lambda>item. startsWith item b) strs start = int j"
    by (intro baseFindIndex_first) (auto simp: firstMatchFrom_def list_all_iff)
  with ne show ?thesis by (simp add: findIndex_def)
qed

lemma findIndex_noMatch:
  assumes "noMatchFrom strs b start"
  shows "findIndex (Some strs) (\<lambda>item. startsWith item b) (int start) = - 1"
proof -
  from assms have "baseFindIndex (\<lambda>item. startsWith item b) strs start = - 1"
    by (intro baseFindIndex_none) (auto simp: noMatchFrom_def list_all_iff)
  then show ?thesis by (simp add: findIndex_def)
qed

lemma alnum_not_tab_escape: "isAlphaNumeric k \<Longrightarrow> k \<noteq> 9 \<and> k \<noteq> 27"
  by (auto simp: isAlphaNumeric_def)

lemma alnum_code_unit: "isAlphaNumeric k \<Longrightarrow> k mod 65536 = k"
  by (auto simp: isAlphaNumeric_def)

lemma run_typeahead:
  assumes "isAlphaNumeric keyCode" and "startingString s = Some buffer"
  shows "startingString (run p s (handleListKeyDown p s keyCode hi)) =
           Some (buffer @ toLowerCase [char_of keyCode]) \<and>
         highlightedIndex (run p s (handleListKeyDown p s keyCode hi)) =
           (let P = (\<lambda>item. startsWith item (buffer @ toLowerCase [char_of keyCode]));
                r1 = (case highlightedIndex s of
                        None \<Rightarrow> - 1
                      | Some h \<Rightarrow> findIndex (filteredItemStrings s) P
                                    (h + (if length buffer > 0 then 0 else 1)));
                r2 = (if r1 < 0 then findIndex (filteredItemStrings s) P 0 else r1)
            in if r2 \<ge> 0 then Some r2 else highlightedIndex s)"
  using assms alnum_not_tab_escape [OF assms(1)]
  by (cases "highlightedIndex s")
     (auto simp: handleListKeyDown_def setHighlightedIndexOnCharKeyDown_def handler_defs Let_def
            alnum_code_unit [OF assms(1)])

lemma lower_key_A: "toLowerCase [char_of (65::nat)] = ''a''"
  by code_simp

lemma lower_key_B: "toLowerCase [char_of (66::nat)] = ''b''"
  by code_simp

lemma lower_A: "toLowerCase ''A'' = ''a''"
  by code_simp








lemma findIndex_None: "findIndex None P k = - 1"
  by (simp add: findIndex_def)














lemma select_closes:
  assumes "prop_open p = None"
  shows "\<not> open (run p s (selectItem p s x))"
proof -
  have frame: "open (run p t (handleSelectedChange p s x)) = open t" for t
    by (auto simp: handleSelectedChange_def handler_defs split: option.splits sum.splits)
  show ?thesis
  proof (cases "open s")
    case True
    then have "handleStateChange p s selectionChange =
                 [TrySetState [SetOpen False, SetHighlightedIndex None],
                  Invoke OnOpenChange [SetOpen False, SetHighlightedIndex None]]"
      by (simp add: handleStateChange_def selectionChange_def handler_defs)
    then have "run p s (selectItem p s x) =
                 run p (trySetState p [SetOpen False, SetHighlightedIndex None] s)
                   (handleSelectedChange p s x)"
      by (simp add: selectItem_def andThen_def)
    with frame assms show ?thesis by (simp add: trySetState_def)
  next
    case False
    then have "handleStateChange p s selectionChange = []"
      by (simp add: handleStateChange_def selectionChange_def handler_defs)
    then have "run p s (selectItem p s x) = run p s (handleSelectedChange p s x)"
      by (simp add: selectItem_def andThen_def)
    with frame False show ?thesis by simp
  qed
qed










lemma lower_fruits:
  "toLowerCase ''Apple'' = ''apple''" "toLowerCase ''Banana'' = ''banana''"
  "toLowerCase ''Cherry'' = ''cherry''" "toLowerCase [] = []"
  "toLowerCase ''X'' = ''x''" "toLowerCase ''Y'' = ''y''" "toLowerCase ''Z'' = ''z''"
  "toLowerCase ''an'' = ''an''"
  by code_simp+

lemmas trace_defs =
  trace_def view_def mount_def step_def getAutoControlledStateFromProps_def Let_def
  handleStateChange_def getHighlightedIndexOnArrowKeyOpen_def

lemmas run_defs =
  trace_defs scenario_defs handler_defs handleSelectedChange_def selectItem_def
  selectionChange_def getSelectedItemAsString_def lower_fruits startsWith_def difference_def

lemma indexOf_first:
  "k < length xs \<Longrightarrow> xs ! k = x \<Longrightarrow> (\<forall>j<k. xs ! j \<noteq> x) \<Longrightarrow> indexOf xs x = int k"
proof (induction xs arbitrary: k)
  case Nil
  then show ?case by simp
next
  case (Cons y ys)
  show ?case
  proof (cases k)
    case 0
    with Cons.prems show ?thesis by simp
  next
    case (Suc k')
    with Cons.prems have ne: "y \<noteq> x" by auto
    from Suc Cons.prems have "indexOf ys x = int k'"
      by (intro Cons.IH) auto
    with ne Suc show ?thesis by (simp add: Let_def)
  qed
qed

lemma indexOf_absent: "x \<notin> set xs \<Longrightarrow> indexOf xs x = - 1"
  by (induction xs) (auto simp: Let_def)

lemma select_value_query:
  assumes "prop_value p = None" and "prop_searchQuery p = None"
  shows "(\<not> multiple p \<longrightarrow>
            value' (run p s (selectItem p s x)) = VItem x \<and>
            searchQuery (run p s (selectItem p s x)) = getSelectedItemAsString p x) \<and>
         (multiple p \<and> value' s = VArray vs \<longrightarrow>
            value' (run p s (selectItem p s x)) = VArray (vs @ [x]) \<and>
            searchQuery (run p s (selectItem p s x)) = getSelectedItemAsString p x)"
  using assms
  by (cases "open s")
     (auto simp: selectItem_def selectionChange_def handleStateChange_def
        handleSelectedChange_def handler_defs split: option.splits)




subsection \<open>C1: filtered items and value are disjoint in a multiple selection\<close>

text \<open>
  C1, as the code has it.  In a multiple selection the filter first takes the items that
  are not in the value (\<^verbatim>\<open>_.difference\<close>).  With \<^verbatim>\<open>search\<close> off or \<^verbatim>\<open>true\<close> (and a
  search query that is a string) only items of that difference are kept, so no item of
  the value is among the filtered items.  A custom search function receives the
  difference and its result is taken as it is; the filtered items are disjoint from the
  value whenever that function returns only items it was given.
\<close>

theorem filtered_items_exclude_value:
  assumes "multiple p" and "items p = Some its" and "value' s = VArray vs"
    and "search p = SearchOn \<longrightarrow> searchQuery s \<noteq> None"
    and "\<forall>f. search p = SearchFn f \<longrightarrow>
           set (f (difference its (VArray vs)) (searchQuery s)) \<subseteq> set (difference its (VArray vs))"
  shows "\<exists>fs. FilteredItems p s = Some fs \<and> set fs \<inter> set vs = {}"
proof (cases "search p")
  case SearchOff
  with assms show ?thesis
    by (auto simp: FilteredItems_def getAutoControlledStateFromProps_def Let_def
          set_difference_VArray)
next
  case SearchOn
  with assms obtain q where "searchQuery s = Some q" by auto
  with SearchOn assms show ?thesis
    by (auto simp: FilteredItems_def getAutoControlledStateFromProps_def Let_def
          set_difference_VArray)
next
  case (SearchFn f)
  with assms have "set (f (difference its (VArray vs)) (searchQuery s)) \<subseteq> set its - set vs"
    by (simp add: set_difference_VArray)
  with SearchFn assms show ?thesis
    by (auto simp: FilteredItems_def getAutoControlledStateFromProps_def Let_def)
qed

text \<open>
  Scenario B of the specification: items X, Y, Z and value [X] give the filtered items
  [Y, Z].
\<close>

theorem filtered_items_exclude_value_witness:
  "FilteredItems ((dropdownOver xyz)\<lparr>multiple := True\<rparr>)
     (closedWith ((dropdownOver xyz)\<lparr>multiple := True\<rparr>) (VArray [Primitive ''X'']) []) =
     Some [Primitive ''Y'', Primitive ''Z''] \<and>
   (\<exists>fs. FilteredItems ((dropdownOver xyz)\<lparr>multiple := True\<rparr>)
            (closedWith ((dropdownOver xyz)\<lparr>multiple := True\<rparr>) (VArray [Primitive ''X'']) []) =
          Some fs \<and> set fs \<inter> set [Primitive ''X''] = {})"
  using filtered_items_exclude_value
    [of "(dropdownOver xyz)\<lparr>multiple := True\<rparr>" xyz
        "closedWith ((dropdownOver xyz)\<lparr>multiple := True\<rparr>) (VArray [Primitive ''X'']) []"
        "[Primitive ''X'']"]
  by (simp add: scenario_defs FilteredItems_def getAutoControlledStateFromProps_def Let_def
        difference_def)

text \<open>
  C1 as stated fails for a custom search function: one that answers with a fixed list
  puts the selected item X back among the filtered items.
\<close>

theorem filtered_items_custom_search_counterexample:
  "FilteredItems
     ((dropdownOver [Primitive ''X''])
        \<lparr>multiple := True, search := SearchFn (\<lambda>candidates query. [Primitive ''X''])\<rparr>)
     (closedWith ((dropdownOver [Primitive ''X''])\<lparr>multiple := True\<rparr>) (VArray [Primitive ''X'']) []) =
     Some [Primitive ''X''] \<and>
   value' (closedWith ((dropdownOver [Primitive ''X''])\<lparr>multiple := True\<rparr>) (VArray [Primitive ''X'']) []) =
     VArray [Primitive ''X'']"
  by (simp add: scenario_defs FilteredItems_def getAutoControlledStateFromProps_def Let_def
        difference_def)

subsection \<open>C2: the highlighted index of an open panel\<close>




subsection \<open>C3: a pending highlighted index of 0 at the open transition\<close>

text \<open>
  C3, evaluated where the code departs from it.  Apple, Banana, Cherry in a closed single
  selection without search, opened with the up arrow.  With Banana selected and its index
  1 pending, the pending index is kept.  With Apple selected and its index 0 pending, the
  test \<^verbatim>\<open>if (highlightedIndex)\<close> treats the pending index as unset, and the
  value-based default (index of Apple minus one, wrapped) makes the last index 2 the
  highlighted one.
\<close>

theorem pending_zero_dropped_on_arrow_up_open:
  "highlightedIndex
     (run (dropdownOver fruits)
        ((closedWith (dropdownOver fruits) (VItem (Primitive ''Apple'')) fruits)
           \<lparr>highlightedIndex := Some 0\<rparr>)
        (handleStateChange (dropdownOver fruits)
           ((closedWith (dropdownOver fruits) (VItem (Primitive ''Apple'')) fruits)
              \<lparr>highlightedIndex := Some 0\<rparr>)
           (openBy KeyDownArrowUp))) = Some 2 \<and>
   highlightedIndex
     (run (dropdownOver fruits)
        ((closedWith (dropdownOver fruits) (VItem (Primitive ''Banana'')) fruits)
           \<lparr>highlightedIndex := Some 1\<rparr>)
        (handleStateChange (dropdownOver fruits)
           ((closedWith (dropdownOver fruits) (VItem (Primitive ''Banana'')) fruits)
              \<lparr>highlightedIndex := Some 1\<rparr>)
           (openBy KeyDownArrowUp))) = Some 1"
  by (simp add: scenario_defs handleStateChange_def getHighlightedIndexOnArrowKeyOpen_def
        Let_def handler_defs)

subsection \<open>C4: type-ahead\<close>

text \<open>
  C4, as the code has it.  For every alphanumeric key on the list of a dropdown without
  search, with a highlighted index that is none or not negative: the lower-cased
  character is appended to the type-ahead buffer, and the strings of the candidates are
  scanned for the first one that starts with the new buffer.  The scan begins just after
  the highlighted index when the buffer was empty before the key, at the highlighted
  index itself when the buffer already held characters, and at index 0 when no index is
  highlighted.  If that scan finds nothing, the first match from index 0 is taken; if no
  candidate matches at all, the highlighted index is left unchanged.
\<close>

theorem typeahead_scan:
  assumes "isAlphaNumeric keyCode" and "startingString s = Some buffer"
    and "filteredItemStrings s = Some strs"
    and "case highlightedIndex s of None \<Rightarrow> True | Some h \<Rightarrow> 0 \<le> h"
    and "newBuffer = buffer @ toLowerCase [char_of keyCode]"
    and "start = (case highlightedIndex s of
                    None \<Rightarrow> 0
                  | Some h \<Rightarrow> nat h + (if buffer = [] then 1 else 0))"
  shows "startingString (run p s (handleListKeyDown p s keyCode hi)) = Some newBuffer \<and>
         (firstMatchFrom strs newBuffer start j \<longrightarrow>
            highlightedIndex (run p s (handleListKeyDown p s keyCode hi)) = Some (int j)) \<and>
         (noMatchFrom strs newBuffer start \<and> firstMatchFrom strs newBuffer 0 j \<longrightarrow>
            highlightedIndex (run p s (handleListKeyDown p s keyCode hi)) = Some (int j)) \<and>
         (noMatchFrom strs newBuffer 0 \<longrightarrow>
            highlightedIndex (run p s (handleListKeyDown p s keyCode hi)) = highlightedIndex s)"
proof -
  let ?P = "\<lambda>item. startsWith item newBuffer"
  let ?s' = "run p s (handleListKeyDown p s keyCode hi)"
  let ?r1 = "findIndex (Some strs) ?P (int start)"
  let ?r2 = "if ?r1 < 0 then findIndex (Some strs) ?P 0 else ?r1"
  have from_eq: "case highlightedIndex s of
                   None \<Rightarrow> True
                 | Some h \<Rightarrow> h + (if length buffer > 0 then 0 else 1) = int start"
    using assms(4) assms(6) by (cases "highlightedIndex s") auto
  have buf: "startingString ?s' = Some newBuffer"
    using run_typeahead [OF assms(1) assms(2), of p hi] assms(5) by simp
  have hi': "highlightedIndex ?s' = (if ?r2 \<ge> 0 then Some ?r2 else highlightedIndex s)"
  proof (cases "highlightedIndex s")
    case None
    then have "start = 0" using assms(6) by simp
    with None show ?thesis
      using run_typeahead [OF assms(1) assms(2), of p hi] assms(3) assms(5)
      by (simp add: Let_def)
  next
    case (Some h)
    with from_eq have "h + (if length buffer > 0 then 0 else 1) = int start" by simp
    with Some show ?thesis
      using run_typeahead [OF assms(1) assms(2), of p hi] assms(3) assms(5)
      by (simp add: Let_def)
  qed
  have a: "firstMatchFrom strs newBuffer start j \<longrightarrow> highlightedIndex ?s' = Some (int j)"
    using hi' findIndex_firstMatch [of strs newBuffer start j] by auto
  have b: "noMatchFrom strs newBuffer start \<and> firstMatchFrom strs newBuffer 0 j \<longrightarrow>
           highlightedIndex ?s' = Some (int j)"
    using hi' findIndex_noMatch [of strs newBuffer start]
      findIndex_firstMatch [of strs newBuffer 0 j] by auto
  have nm: "noMatchFrom strs newBuffer 0 \<Longrightarrow> noMatchFrom strs newBuffer start"
    by (auto simp: noMatchFrom_def list_all_iff)
  have c: "noMatchFrom strs newBuffer 0 \<longrightarrow> highlightedIndex ?s' = highlightedIndex s"
    using hi' findIndex_noMatch [of strs newBuffer start]
      findIndex_noMatch [of strs newBuffer 0] nm by auto
  from buf a b c show ?thesis by simp
qed

text \<open>Scenario A: with Apple highlighted, the key "b" highlights Banana, index 1.\<close>

theorem typeahead_scan_witness:
  "startingString
     (run (dropdownOver fruits) (typing [''apple'', ''banana'', ''cherry''] (Some 0) [])
        (handleListKeyDown (dropdownOver fruits)
           (typing [''apple'', ''banana'', ''cherry''] (Some 0) []) 66 (Some 0))) = Some ''b'' \<and>
   highlightedIndex
     (run (dropdownOver fruits) (typing [''apple'', ''banana'', ''cherry''] (Some 0) [])
        (handleListKeyDown (dropdownOver fruits)
           (typing [''apple'', ''banana'', ''cherry''] (Some 0) []) 66 (Some 0))) = Some 1"
  using typeahead_scan
    [where keyCode = 66 and s = "typing [''apple'', ''banana'', ''cherry''] (Some 0) []"
       and buffer = "[]" and strs = "[''apple'', ''banana'', ''cherry'']"
       and newBuffer = "''b''" and start = 1 and j = 1
       and p = "dropdownOver fruits" and hi = "Some 0"]
    lower_key_B
  by (simp add: scenario_defs typing_def isAlphaNumeric_def firstMatchFrom_def startsWith_def)

text \<open>
  C4 as stated fails in both of its cases.  With "b" already typed and banana highlighted
  among banana, bandana, the key "a" keeps index 0 (the scan begins at the highlighted
  index), where a scan beginning just after it gives 1.  With an empty buffer and apple
  highlighted among apple, avocado, banana, the key "a" moves to index 1 (the scan begins
  just after the highlighted index), where a scan from index 0 gives 0.
\<close>

theorem typeahead_scan_start_counterexample:
  "highlightedIndex
     (run (dropdownOver fruits) (typing [''banana'', ''bandana''] (Some 0) ''b'')
        (handleListKeyDown (dropdownOver fruits)
           (typing [''banana'', ''bandana''] (Some 0) ''b'') 65 (Some 0))) = Some 0 \<and>
   typeAheadAsStated [''banana'', ''bandana''] ''b'' (Some 0) ''A'' = Some 1 \<and>
   highlightedIndex
     (run (dropdownOver fruits) (typing [''apple'', ''avocado'', ''banana''] (Some 0) [])
        (handleListKeyDown (dropdownOver fruits)
           (typing [''apple'', ''avocado'', ''banana''] (Some 0) []) 65 (Some 0))) = Some 1 \<and>
   typeAheadAsStated [''apple'', ''avocado'', ''banana''] [] (Some 0) ''A'' = Some 0"
  using lower_key_A lower_A
  by (simp add: scenario_defs typing_def isAlphaNumeric_def handleListKeyDown_def
        setHighlightedIndexOnCharKeyDown_def handler_defs Let_def findIndex_def
        baseFindIndex.simps startsWith_def typeAheadAsStated_def upt_rec)

subsection \<open>C5: opening a single selection on its value\<close>

text \<open>
  C5.  In a single selection without search, with a non-empty value, no pending highlight
  and \<^verbatim>\<open>highlightFirstItemOnOpen\<close> unset, opening sets the highlighted index to the
  index of the value in the full item collection, minus one for the up arrow, plus one
  for the down arrow, unchanged for any other open; a result below zero becomes the last
  candidate index and a result at or above the number of candidates becomes 0.  The index
  of the value is the position \<open>k\<close> of its first occurrence among the items (no earlier
  item is the value), and -1 when the value is not among the items.
\<close>

theorem single_open_highlight_follows_value:
  assumes "\<not> multiple p" and "search p = SearchOff" and "\<not> highlightFirstItemOnOpen p"
    and "items p = Some its" and "filteredItems s = Some fs"
    and "value' s = VItem v" and "truthy v"
    and "highlightedIndex s = None" and "open s = False"
    and "ch_isOpen c = Some True" and "prop_highlightedIndex p = None"
    and "(k < length its \<and> its ! k = v \<and> (\<forall>j<k. its ! j \<noteq> v) \<and> idx = int k) \<or>
         (v \<notin> set its \<and> idx = - 1)"
  shows "highlightedIndex (run p s (handleStateChange p s c)) =
           Some (let offset = (if ch_type c = KeyDownArrowUp then - 1
                               else if ch_type c = KeyDownArrowDown then 1 else 0);
                     i = idx + offset
                 in if i < 0 then int (length fs) - 1
                    else if int (length fs) \<le> i then 0
                    else i)"
proof -
  from assms(12) have "indexOf its v = idx"
    using indexOf_first [of k its v] indexOf_absent [of v its] by auto
  with assms(1-11) show ?thesis
    by (cases "ch_highlightedIndex c")
       (auto simp: handleStateChange_def getHighlightedIndexOnArrowKeyOpen_def Let_def andThen_def
              trySetStateAndInvokeHandler_def trySetState_def)
qed

text \<open>
  Among Apple, Banana, Cherry: with Banana selected (position 1) the down arrow
  highlights index 2 and the up arrow index 0; with Apple selected the up arrow wraps to
  the last index 2; with Cherry selected the down arrow wraps to 0; with a value that is
  not among the items (index -1) the down arrow highlights index 0.
\<close>

theorem single_open_highlight_follows_value_witness:
  "highlightedIndex
     (run (dropdownOver fruits) (closedWith (dropdownOver fruits) (VItem (Primitive ''Banana'')) fruits)
        (handleStateChange (dropdownOver fruits)
           (closedWith (dropdownOver fruits) (VItem (Primitive ''Banana'')) fruits)
           (openBy KeyDownArrowDown))) = Some 2 \<and>
   highlightedIndex
     (run (dropdownOver fruits) (closedWith (dropdownOver fruits) (VItem (Primitive ''Banana'')) fruits)
        (handleStateChange (dropdownOver fruits)
           (closedWith (dropdownOver fruits) (VItem (Primitive ''Banana'')) fruits)
           (openBy KeyDownArrowUp))) = Some 0 \<and>
   highlightedIndex
     (run (dropdownOver fruits) (closedWith (dropdownOver fruits) (VItem (Primitive ''Apple'')) fruits)
        (handleStateChange (dropdownOver fruits)
           (closedWith (dropdownOver fruits) (VItem (Primitive ''Apple'')) fruits)
           (openBy KeyDownArrowUp))) = Some 2 \<and>
   highlightedIndex
     (run (dropdownOver fruits) (closedWith (dropdownOver fruits) (VItem (Primitive ''Cherry'')) fruits)
        (handleStateChange (dropdownOver fruits)
           (closedWith (dropdownOver fruits) (VItem (Primitive ''Cherry'')) fruits)
           (openBy KeyDownArrowDown))) = Some 0 \<and>
   highlightedIndex
     (run (dropdownOver fruits) (closedWith (dropdownOver fruits) (VItem (Primitive ''Durian'')) fruits)
        (handleStateChange (dropdownOver fruits)
           (closedWith (dropdownOver fruits) (VItem (Primitive ''Durian'')) fruits)
           (openBy KeyDownArrowDown))) = Some 0"
  using single_open_highlight_follows_value
    [of "dropdownOver fruits" fruits
        "closedWith (dropdownOver fruits) (VItem (Primitive ''Banana'')) fruits" fruits
        "Primitive ''Banana''" "openBy KeyDownArrowDown" 1 1]
    single_open_highlight_follows_value
    [of "dropdownOver fruits" fruits
        "closedWith (dropdownOver fruits) (VItem (Primitive ''Banana'')) fruits" fruits
        "Primitive ''Banana''" "openBy KeyDownArrowUp" 1 1]
    single_open_highlight_follows_value
    [of "dropdownOver fruits" fruits
        "closedWith (dropdownOver fruits) (VItem (Primitive ''Apple'')) fruits" fruits
        "Primitive ''Apple''" "openBy KeyDownArrowUp" 0 0]
    single_open_highlight_follows_value
    [of "dropdownOver fruits" fruits
        "closedWith (dropdownOver fruits) (VItem (Primitive ''Cherry'')) fruits" fruits
        "Primitive ''Cherry''" "openBy KeyDownArrowDown" 2 2]
    single_open_highlight_follows_value
    [of "dropdownOver fruits" fruits
        "closedWith (dropdownOver fruits) (VItem (Primitive ''Durian'')) fruits" fruits
        "Primitive ''Durian''" "openBy KeyDownArrowDown" 0 "- 1"]
  by (simp add: scenario_defs less_Suc_eq numeral_3_eq_3 numeral_2_eq_2)

subsection \<open>C6: what a selection changes\<close>

text \<open>
  C6, as the code has it.  With value, search query and open state managed by the
  component, a selection (Downshift's state change, then \<^verbatim>\<open>handleSelectedChange\<close>) in
  a single selection sets the value to the item and the search query to the item's
  string, and closes the panel; in a multiple selection it appends the item to the end of
  the value, with no check for duplicates, sets the search query to the empty string,
  and closes the panel as well.  For an empty (falsy) item the search query becomes the
  placeholder instead, in both modes.
\<close>

theorem select_effect:
  assumes "prop_value p = None" and "prop_searchQuery p = None" and "prop_open p = None"
  shows "(\<not> multiple p \<longrightarrow>
            value' (run p s (selectItem p s x)) = VItem x \<and>
            searchQuery (run p s (selectItem p s x)) =
              (if truthy x then Some (itemToString p x) else placeholder p) \<and>
            open (run p s (selectItem p s x)) = False) \<and>
         (multiple p \<and> value' s = VArray vs \<longrightarrow>
            value' (run p s (selectItem p s x)) = VArray (vs @ [x]) \<and>
            searchQuery (run p s (selectItem p s x)) =
              (if truthy x then Some [] else placeholder p) \<and>
            open (run p s (selectItem p s x)) = False)"
  using select_value_query [OF assms(1,2), of s x vs] select_closes [OF assms(3), of s x]
  by (auto simp: getSelectedItemAsString_def)

text \<open>
  Scenarios A and B, from an open panel: selecting Banana gives the value Banana, the
  search query "Banana" and a closed panel; selecting Y with X selected gives [X, Y]
  and the empty search query.
\<close>

theorem select_effect_witness:
  "value' (run (dropdownOver fruits)
             ((closedWith (dropdownOver fruits) VNull fruits)\<lparr>open := True, highlightedIndex := Some 1\<rparr>)
             (selectItem (dropdownOver fruits)
                ((closedWith (dropdownOver fruits) VNull fruits)\<lparr>open := True, highlightedIndex := Some 1\<rparr>)
                (Primitive ''Banana''))) = VItem (Primitive ''Banana'') \<and>
   searchQuery (run (dropdownOver fruits)
             ((closedWith (dropdownOver fruits) VNull fruits)\<lparr>open := True, highlightedIndex := Some 1\<rparr>)
             (selectItem (dropdownOver fruits)
                ((closedWith (dropdownOver fruits) VNull fruits)\<lparr>open := True, highlightedIndex := Some 1\<rparr>)
                (Primitive ''Banana''))) = Some ''Banana'' \<and>
   open (run (dropdownOver fruits)
             ((closedWith (dropdownOver fruits) VNull fruits)\<lparr>open := True, highlightedIndex := Some 1\<rparr>)
             (selectItem (dropdownOver fruits)
                ((closedWith (dropdownOver fruits) VNull fruits)\<lparr>open := True, highlightedIndex := Some 1\<rparr>)
                (Primitive ''Banana''))) = False \<and>
   value' (run multiXyz
             ((closedWith multiXyz (VArray [Primitive ''X'']) [Primitive ''Y'', Primitive ''Z''])
                \<lparr>open := True\<rparr>)
             (selectItem multiXyz
                ((closedWith multiXyz (VArray [Primitive ''X'']) [Primitive ''Y'', Primitive ''Z''])
                   \<lparr>open := True\<rparr>)
                (Primitive ''Y''))) = VArray [Primitive ''X'', Primitive ''Y''] \<and>
   searchQuery (run multiXyz
             ((closedWith multiXyz (VArray [Primitive ''X'']) [Primitive ''Y'', Primitive ''Z''])
                \<lparr>open := True\<rparr>)
             (selectItem multiXyz
                ((closedWith multiXyz (VArray [Primitive ''X'']) [Primitive ''Y'', Primitive ''Z''])
                   \<lparr>open := True\<rparr>)
                (Primitive ''Y''))) = Some []"
  using select_effect
    [of "dropdownOver fruits"
        "(closedWith (dropdownOver fruits) VNull fruits)\<lparr>open := True, highlightedIndex := Some 1\<rparr>"
        "Primitive ''Banana''" "[]"]
    select_effect
    [of multiXyz
        "(closedWith multiXyz (VArray [Primitive ''X'']) [Primitive ''Y'', Primitive ''Z''])
           \<lparr>open := True\<rparr>"
        "Primitive ''Y''" "[Primitive ''X'']"]
  by (simp add: scenario_defs multiXyz_def)

text \<open>
  C6 as stated fails on two counts.  Selecting the empty string in a single selection
  with the placeholder "Pick" sets the search query to "Pick", not to the item's string,
  which is empty.  And Scenario B: with X selected and the panel open on [Y, Z],
  selecting Y leaves the value [X, Y], the filtered items [Z] and the panel closed.
\<close>

theorem select_placeholder_and_close_counterexample:
  "view (trace pickOrBlank [Changed (openBy KeyDownArrowDown), Selected (Primitive [])]) =
     Some (False, Some 0, VItem (Primitive []), Some ''Pick'',
           Some [Primitive [], Primitive ''a'']) \<and>
   itemToString pickOrBlank (Primitive []) = [] \<and>
   view (trace multiXyz
           [Changed (openBy KeyDownArrowDown), Selected (Primitive ''X''),
            Changed (openBy KeyDownArrowDown)]) =
     Some (True, Some 0, VArray [Primitive ''X''], Some [],
           Some [Primitive ''Y'', Primitive ''Z'']) \<and>
   view (trace multiXyz
           [Changed (openBy KeyDownArrowDown), Selected (Primitive ''X''),
            Changed (openBy KeyDownArrowDown), Selected (Primitive ''Y'')]) =
     Some (False, None, VArray [Primitive ''X'', Primitive ''Y''], Some [],
           Some [Primitive ''Z''])"
  by (simp add: run_defs pickOrBlank_def multiXyz_def)

subsection \<open>C7: select, then remove\<close>




subsection \<open>C8: Backspace in the empty search field\<close>

text \<open>
  C8.  In a multiple selection with the value managed by the component and an empty search
  query (wherever the caret is, so also at position 0), the Backspace handler removes the
  last item of a non-empty value; on an empty value it issues no effect at all, so the
  state is unchanged.
\<close>

theorem backspace_removes_last:
  assumes "multiple p" and "value' s = VArray vs" and "searchQuery s = Some []"
    and "prop_value p = None"
  shows "(vs \<noteq> [] \<longrightarrow>
            value' (run p s (tryRemoveItemFromValue p s inputRef)) = VArray (butlast vs)) \<and>
         (vs = [] \<longrightarrow>
            tryRemoveItemFromValue p s inputRef = [] \<and>
            run p s (tryRemoveItemFromValue p s inputRef) = s)"
  using assms
  by (auto simp: tryRemoveItemFromValue_def removeItemFromValue_def handler_defs Let_def
        split: option.splits)

text \<open>Scenario C: the value [X, Y] becomes [X]; on the empty value nothing happens.\<close>

theorem backspace_removes_last_witness:
  "value' (run multiSearchXyz
             (closedWith multiSearchXyz (VArray [Primitive ''X'', Primitive ''Y'']) [Primitive ''Z''])
             (tryRemoveItemFromValue multiSearchXyz
                (closedWith multiSearchXyz (VArray [Primitive ''X'', Primitive ''Y'']) [Primitive ''Z''])
                (Some 0))) = VArray [Primitive ''X''] \<and>
   tryRemoveItemFromValue multiSearchXyz (closedWith multiSearchXyz (VArray []) xyz) (Some 0) = []"
  using backspace_removes_last
    [of multiSearchXyz
        "closedWith multiSearchXyz (VArray [Primitive ''X'', Primitive ''Y'']) [Primitive ''Z'']"
        "[Primitive ''X'', Primitive ''Y'']" "Some 0"]
    backspace_removes_last
    [of multiSearchXyz "closedWith multiSearchXyz (VArray []) xyz" "[]" "Some 0"]
  by (simp add: scenario_defs multiSearchXyz_def)

subsection \<open>C9: clear\<close>

text \<open>
  C9.  With the five fields managed by the component, \<^verbatim>\<open>handleClear\<close> sets value,
  search query, highlighted index, active selected index and open state to their initial
  values (the highlighted index to 0 when \<^verbatim>\<open>highlightFirstItemOnOpen\<close> is set, else to
  none), issues exactly one state update, and invokes \<^verbatim>\<open>onSelectedChange\<close> exactly
  once.
\<close>

theorem clear_resets:
  assumes "prop_value p = None" and "prop_searchQuery p = None"
    and "prop_highlightedIndex p = None" and "prop_activeSelectedIndex p = None"
    and "prop_open p = None"
  shows "value' (run p s (handleClear p s)) = (if multiple p then VArray [] else VNull) \<and>
         searchQuery (run p s (handleClear p s)) = (if isSearch (search p) then Some [] else None) \<and>
         highlightedIndex (run p s (handleClear p s)) =
           (if highlightFirstItemOnOpen p then Some 0 else None) \<and>
         activeSelectedIndex (run p s (handleClear p s)) = None \<and>
         open (run p s (handleClear p s)) = False \<and>
         length (filter isStateUpdate (handleClear p s)) = 1 \<and>
         length (filter (isInvoke OnSelectedChange) (handleClear p s)) = 1"
  using assms
  by (simp add: handleClear_def handler_defs Let_def getInitialAutoControlledState_def)

text \<open>Scenario E: a search dropdown with Banana selected, cleared.\<close>

theorem clear_resets_witness:
  "value' (run searchFruits
             ((closedWith searchFruits (VItem (Primitive ''Banana'')) [Primitive ''Banana''])
                \<lparr>searchQuery := Some ''Banana'', open := True, highlightedIndex := Some 0\<rparr>)
             (handleClear searchFruits
                ((closedWith searchFruits (VItem (Primitive ''Banana'')) [Primitive ''Banana''])
                   \<lparr>searchQuery := Some ''Banana'', open := True, highlightedIndex := Some 0\<rparr>))) = VNull \<and>
   searchQuery (run searchFruits
             ((closedWith searchFruits (VItem (Primitive ''Banana'')) [Primitive ''Banana''])
                \<lparr>searchQuery := Some ''Banana'', open := True, highlightedIndex := Some 0\<rparr>)
             (handleClear searchFruits
                ((closedWith searchFruits (VItem (Primitive ''Banana'')) [Primitive ''Banana''])
                   \<lparr>searchQuery := Some ''Banana'', open := True, highlightedIndex := Some 0\<rparr>))) = Some [] \<and>
   open (run searchFruits
             ((closedWith searchFruits (VItem (Primitive ''Banana'')) [Primitive ''Banana''])
                \<lparr>searchQuery := Some ''Banana'', open := True, highlightedIndex := Some 0\<rparr>)
             (handleClear searchFruits
                ((closedWith searchFruits (VItem (Primitive ''Banana'')) [Primitive ''Banana''])
                   \<lparr>searchQuery := Some ''Banana'', open := True, highlightedIndex := Some 0\<rparr>))) = False \<and>
   highlightedIndex (run searchFruits
             ((closedWith searchFruits (VItem (Primitive ''Banana'')) [Primitive ''Banana''])
                \<lparr>searchQuery := Some ''Banana'', open := True, highlightedIndex := Some 0\<rparr>)
             (handleClear searchFruits
                ((closedWith searchFruits (VItem (Primitive ''Banana'')) [Primitive ''Banana''])
                   \<lparr>searchQuery := Some ''Banana'', open := True, highlightedIndex := Some 0\<rparr>))) = None \<and>
   length (filter (isInvoke OnSelectedChange)
             (handleClear searchFruits
                ((closedWith searchFruits (VItem (Primitive ''Banana'')) [Primitive ''Banana''])
                   \<lparr>searchQuery := Some ''Banana'', open := True, highlightedIndex := Some 0\<rparr>))) = 1"
  using clear_resets
    [of searchFruits
        "(closedWith searchFruits (VItem (Primitive ''Banana'')) [Primitive ''Banana''])
           \<lparr>searchQuery := Some ''Banana'', open := True, highlightedIndex := Some 0\<rparr>"]
  by (simp add: scenario_defs searchFruits_def)

subsection \<open>C10: the index a single selection records\<close>

text \<open>
  C10, evaluated where the code departs from it.  Apple, Banana, Cherry in a single
  selection without search, opened with the down arrow.  Selecting Banana closes the
  panel with the recorded index 1, and the next open (up arrow) keeps 1 as the highlighted
  index.  Selecting Apple closes the panel with the recorded index 0, which survives the
  close; at the next open the test \<^verbatim>\<open>if (highlightedIndex)\<close> treats it as unset, and
  the value-based default (index of Apple minus one, wrapped) makes the last index 2 the
  highlighted one.
\<close>

theorem selected_first_item_not_pending_on_next_open:
  "view (trace (dropdownOver fruits)
           [Changed (openBy KeyDownArrowDown), Selected (Primitive ''Apple'')]) =
     Some (False, Some 0, VItem (Primitive ''Apple''), Some ''Apple'', Some fruits) \<and>
   view (trace (dropdownOver fruits)
           [Changed (openBy KeyDownArrowDown), Selected (Primitive ''Apple''),
            Changed (openBy KeyDownArrowUp)]) =
     Some (True, Some 2, VItem (Primitive ''Apple''), Some ''Apple'', Some fruits) \<and>
   view (trace (dropdownOver fruits)
           [Changed (openBy KeyDownArrowDown), Selected (Primitive ''Banana'')]) =
     Some (False, Some 1, VItem (Primitive ''Banana''), Some ''Banana'', Some fruits) \<and>
   view (trace (dropdownOver fruits)
           [Changed (openBy KeyDownArrowDown), Selected (Primitive ''Banana''),
            Changed (openBy KeyDownArrowUp)]) =
     Some (True, Some 1, VItem (Primitive ''Banana''), Some ''Banana'', Some fruits)"
  by (simp add: run_defs)

end
